theory Spec2Isabelle
  imports Main "HOL-Library.Word"
begin

section \<open>Data model of win\_fsnotifier.cpp\<close>

text \<open>
  Windows strings are sequences of 16-bit \<open>wchar_t\<close>; a \<open>DWORD\<close> is a 32-bit word.
  Handles and object addresses are opaque, so natural numbers stand for them.
\<close>

type_synonym wchar = "16 word"
type_synonym wstring = "wchar list"
type_synonym DWORD = "32 word"
type_synonym HANDLE = nat
type_synonym addr = nat

text \<open>Constants of the Windows SDK (winnt.h, winerror.h) that the code compares against.\<close>

definition FILE_ACTION_ADDED :: DWORD where
  "FILE_ACTION_ADDED = 1"

definition FILE_ACTION_REMOVED :: DWORD where
  "FILE_ACTION_REMOVED = 2"

definition FILE_ACTION_MODIFIED :: DWORD where
  "FILE_ACTION_MODIFIED = 3"

definition FILE_ACTION_RENAMED_OLD_NAME :: DWORD where
  "FILE_ACTION_RENAMED_OLD_NAME = 4"

definition FILE_ACTION_RENAMED_NEW_NAME :: DWORD where
  "FILE_ACTION_RENAMED_NEW_NAME = 5"

definition ERROR_OPERATION_ABORTED :: DWORD where
  "ERROR_OPERATION_ABORTED = 995"

definition backslash :: wchar where
  "backslash = 0x5C"

definition colon :: wchar where
  "colon = 0x3A"

definition sizeof_wchar_t :: nat where
  "sizeof_wchar_t = 2"

text \<open>
  Modelled from the spec: the revision of win\_fsnotifier.h that this file includes, which
  declares the \<open>FILE_EVENT_*\<close> change types and the \<open>WATCH_*\<close> lifecycle states, is
  missing; the headers among the sources declare a different \<open>WatchPoint\<close> and
  \<open>Server\<close>, without them.
  The constructors carry the names the code uses; the spec lists the change types
  CREATED, REMOVED, MODIFIED, INVALIDATED, UNKNOWN, OVERFLOW and the states
  UNINITIALIZED, LISTENING, NOT\_LISTENING, FAILED\_TO\_LISTEN, FINISHED.
\<close>

datatype ChangeType =
    FILE_EVENT_CREATED
  | FILE_EVENT_REMOVED
  | FILE_EVENT_MODIFIED
  | FILE_EVENT_INVALIDATE
  | FILE_EVENT_UNKNOWN
  | FILE_EVENT_OVERFLOW

datatype watch_status =
    WATCH_UNINITIALIZED
  | WATCH_LISTENING
  | WATCH_NOT_LISTENING
  | WATCH_FAILED_TO_LISTEN
  | WATCH_FINISHED

text \<open>One record of the buffer that \<open>ReadDirectoryChangesW\<close> fills. \<open>FileName\<close> holds
  the characters stored in memory from the record's \<open>FileName\<close> member on;
  \<open>FileNameLength\<close> counts bytes. The name is not terminated by the operating system.\<close>

record FILE_NOTIFY_INFORMATION =
  NextEntryOffset :: DWORD
  Action :: DWORD
  FileNameLength :: DWORD
  FileName :: wstring

record WatchPoint =
  path :: wstring
  directoryHandle :: HANDLE
  status :: watch_status

datatype log_level = Fine | Info | Warning | Severe

text \<open>Everything the code does to the outside world, in the order it does it:
  calls of the Java callback, log calls, operating-system and JNI calls.\<close>

datatype effect =
    PathChanged ChangeType wstring
  | Log log_level
  | Stderr
  | CreateFileW wstring
  | ReadDirectoryChangesW HANDLE
  | CancelIo HANDLE
  | CloseHandle HANDLE
  | QueueStartWatch addr
  | QueueTermination
  | NewGlobalRef
  | DeleteGlobalRef
  | StartThread
  | JoinThread
  | AttachJni
  | DetachJni
  | SetThreadPriority
  | MarkFailed string

text \<open>
  The state the code works on: the fields of the one \<open>Server\<close> object
  (\<open>watchPoints\<close>, \<open>terminate\<close>, and whether its \<open>watcherThread\<close> is joinable),
  whether that object exists (\<open>alive\<close>), the \<open>WatchPoint\<close> objects on the C++ heap
  with the next address \<open>new\<close> hands out, the objects that \<open>delete\<close> has destroyed,
  each as it was at that moment, and the effects performed so far.
\<close>

record state =
  watchPoints :: "addr list"
  terminate :: bool
  joinable :: bool
  alive :: bool
  heap :: "addr \<Rightarrow> WatchPoint option"
  next_addr :: addr
  destroyed :: "(addr \<times> WatchPoint) list"
  trace :: "effect list"

text \<open>Undefined behaviour and abnormal termination the model makes explicit:
  \<open>StdTerminate\<close> is the call of \<open>std::terminate\<close> when a joinable
  \<open>std::thread\<close> is destroyed.\<close>

datatype fault = UseAfterFree | BufferOverrun | StdTerminate

text \<open>How the wait of \<open>condition_variable::wait(lock)\<close>, called without a predicate,
  ends: never, by a spurious wake-up before the awaited notification, or by the
  notification.\<close>

datatype wakeup = Never | Spurious | Notified

text \<open>
  What the run-loop thread executes inside an alertable wait. Each asynchronous procedure
  call carries what the operating system decides: whether \<open>ReadDirectoryChangesW\<close>
  succeeds, the completion's error code, byte count and buffer contents, and whether
  \<open>CancelIo\<close> and \<open>CloseHandle\<close> succeed on a handle.
\<close>

datatype apc =
    StartWatch addr bool
  | Completion addr DWORD DWORD "FILE_NOTIFY_INFORMATION list" bool
  | Termination "HANDLE \<Rightarrow> bool" "HANDLE \<Rightarrow> bool"

datatype jobject = NULL | WatcherImpl

section \<open>WatchPoint\<close>

definition emit :: "effect \<Rightarrow> state \<Rightarrow> state" where
  "emit e s = s\<lparr>trace := trace s @ [e]\<rparr>"

text \<open>The assignment \<open>status = st\<close> inside a method of the live object at \<open>p\<close>.\<close>

definition set_status :: "addr \<Rightarrow> WatchPoint \<Rightarrow> watch_status \<Rightarrow> state \<Rightarrow> state" where
  "set_status p this st s = s\<lparr>heap := (heap s)(p \<mapsto> this\<lparr>status := st\<rparr>)\<rparr>"

text \<open>\<open>Server::reportEvent\<close>: the call of the callback's \<open>pathChanged\<close>. The conversion
  \<open>wchar_to_java_path\<close> is not part of the sources; the effect records its argument.\<close>

definition reportEvent :: "state \<Rightarrow> ChangeType \<Rightarrow> wstring \<Rightarrow> state" where
  "reportEvent s type changedPath = emit (PathChanged type changedPath) s"

text \<open>\<open>delete watchPoint\<close>: the destructor runs on the object as it is, then the
  memory is freed. The code calls it on objects it has just used, so on live ones only.\<close>

definition delete_WatchPoint :: "addr \<Rightarrow> state \<Rightarrow> state" where
  "delete_WatchPoint watchPoint s =
     s\<lparr>destroyed := destroyed s @ (case heap s watchPoint of None \<Rightarrow> [] | Some w \<Rightarrow> [(watchPoint, w)]),
       heap := (heap s)(watchPoint := None)\<rparr>"

text \<open>\<open>Server::reportFinished\<close>: \<open>list::remove\<close> erases every equal pointer.\<close>

definition reportFinished :: "state \<Rightarrow> addr \<Rightarrow> state" where
  "reportFinished s watchPoint =
     delete_WatchPoint watchPoint (s\<lparr>watchPoints := removeAll watchPoint (watchPoints s)\<rparr>)"

text \<open>\<open>WatchPoint::close\<close>.\<close>

definition WatchPoint_close :: "state \<Rightarrow> WatchPoint \<Rightarrow> bool \<Rightarrow> bool \<Rightarrow> state" where
  "WatchPoint_close s this cancelled closed =
     (let s1 = emit (CancelIo (directoryHandle this)) s;
          s2 = (if \<not> cancelled then emit (Log Severe) s1 else s1);
          s3 = emit (CloseHandle (directoryHandle this)) s2
      in if \<not> closed then emit (Log Severe) s3 else s3)"

text \<open>\<open>WatchPoint::listen\<close>; \<open>success\<close> is the result of \<open>ReadDirectoryChangesW\<close>.\<close>

definition listen :: "state \<Rightarrow> addr \<Rightarrow> WatchPoint \<Rightarrow> bool \<Rightarrow> state" where
  "listen s p this success =
     (let s1 = emit (ReadDirectoryChangesW (directoryHandle this)) s
      in if success then set_status p this WATCH_LISTENING s1
         else emit (Log Warning) (set_status p this WATCH_FAILED_TO_LISTEN s1))"

text \<open>\<open>WatchPoint::handlePathChanged\<close>. The expression
  \<open>wstring(info->FileName, 0, info->FileNameLength / sizeof(wchar_t))\<close> first converts the
  pointer to a string, which reads up to the first NUL character, and then takes the
  leading characters of that string.\<close>

definition handlePathChanged :: "state \<Rightarrow> WatchPoint \<Rightarrow> FILE_NOTIFY_INFORMATION \<Rightarrow> state" where
  "handlePathChanged s this info =
     (let name = take (unat (FileNameLength info) div sizeof_wchar_t)
                   (takeWhile (\<lambda>c. c \<noteq> 0) (FileName info));
          changedPath = (if name \<noteq> [] then path this @ [backslash] @ name else name);
          s1 = emit (Log Fine) s
      in if Action info = FILE_ACTION_ADDED \<or> Action info = FILE_ACTION_RENAMED_NEW_NAME
           then reportEvent s1 FILE_EVENT_CREATED changedPath
         else if Action info = FILE_ACTION_REMOVED \<or> Action info = FILE_ACTION_RENAMED_OLD_NAME
           then reportEvent s1 FILE_EVENT_REMOVED changedPath
         else if Action info = FILE_ACTION_MODIFIED
           then reportEvent s1 FILE_EVENT_MODIFIED changedPath
         else reportEvent (emit (Log Warning) s1) FILE_EVENT_UNKNOWN changedPath)"

text \<open>The loop of \<open>handleEvent\<close> over the buffer: the record at \<open>current\<close> is handled
  first, then \<open>NextEntryOffset\<close> decides whether another one follows. The list holds the
  records in the order the offsets chain them; following a non-zero offset past the
  last record reads outside the data.\<close>

fun walk :: "state \<Rightarrow> WatchPoint \<Rightarrow> FILE_NOTIFY_INFORMATION list \<Rightarrow> fault + state" where
  "walk s this [] = Inl BufferOverrun"
| "walk s this (current # rest) =
     (let s1 = handlePathChanged s this current
      in if NextEntryOffset current = 0 then Inr s1 else walk s1 this rest)"

text \<open>\<open>WatchPoint::handleEvent\<close>; \<open>rearmed\<close> is the result of the
  \<open>ReadDirectoryChangesW\<close> call that \<open>listen\<close> makes at the end.\<close>

definition handleEvent ::
  "state \<Rightarrow> addr \<Rightarrow> WatchPoint \<Rightarrow> DWORD \<Rightarrow> DWORD \<Rightarrow> FILE_NOTIFY_INFORMATION list \<Rightarrow> bool
    \<Rightarrow> fault + state" where
  "handleEvent s p this errorCode bytesTransferred buffer rearmed =
     (let s0 = set_status p this WATCH_NOT_LISTENING s
      in if errorCode = ERROR_OPERATION_ABORTED
         then Inr (reportFinished (set_status p this WATCH_FINISHED (emit (Log Info) s0)) p)
         else
           (case (if bytesTransferred = 0
                  then Inr (reportEvent s0 FILE_EVENT_INVALIDATE (path this))
                  else walk s0 this buffer) of
              Inl f \<Rightarrow> Inl f
            | Inr s1 \<Rightarrow>
                (let s2 = listen s1 p this rearmed
                 in if map_option status (heap s2 p) \<noteq> Some WATCH_LISTENING
                    then Inr (reportFinished s2 p)
                    else Inr s2)))"

section \<open>Server\<close>

text \<open>\<open>Server::requestTermination\<close>: the loop over the copy of \<open>watchPoints\<close>.\<close>

fun close_all ::
  "state \<Rightarrow> addr list \<Rightarrow> (HANDLE \<Rightarrow> bool) \<Rightarrow> (HANDLE \<Rightarrow> bool) \<Rightarrow> fault + state" where
  "close_all s [] cancelled closed = Inr s"
| "close_all s (watchPoint # rest) cancelled closed =
     (case heap s watchPoint of
        None \<Rightarrow> Inl UseAfterFree
      | Some this \<Rightarrow>
          close_all
            (WatchPoint_close s this (cancelled (directoryHandle this)) (closed (directoryHandle this)))
            rest cancelled closed)"

definition requestTermination ::
  "state \<Rightarrow> (HANDLE \<Rightarrow> bool) \<Rightarrow> (HANDLE \<Rightarrow> bool) \<Rightarrow> fault + state" where
  "requestTermination s cancelled closed =
     (let s1 = s\<lparr>terminate := True\<rparr>;
          copyWatchPoints = watchPoints s1
      in close_all s1 copyWatchPoints cancelled closed)"

text \<open>The callbacks \<open>startWatchCallback\<close>, \<open>handleEventCallback\<close> and
  \<open>requestTerminationCallback\<close>: each casts its argument to an object and calls the method.\<close>

fun dispatch :: "apc \<Rightarrow> state \<Rightarrow> fault + state" where
  "dispatch (StartWatch p success) s =
     (case heap s p of
        None \<Rightarrow> Inl UseAfterFree
      | Some this \<Rightarrow> Inr (listen s p this success))"
| "dispatch (Completion p errorCode bytesTransferred buffer rearmed) s =
     (case heap s p of
        None \<Rightarrow> Inl UseAfterFree
      | Some this \<Rightarrow> handleEvent s p this errorCode bytesTransferred buffer rearmed)"
| "dispatch (Termination cancelled closed) s = requestTermination s cancelled closed"

text \<open>\<open>SleepEx(INFINITE, true)\<close> returns after the thread has run the calls queued for it.\<close>

fun SleepEx :: "state \<Rightarrow> apc list \<Rightarrow> fault + state" where
  "SleepEx s [] = Inr s"
| "SleepEx s (a # queued) =
     (case dispatch a s of
        Inl f \<Rightarrow> Inl f
      | Inr s' \<Rightarrow> SleepEx s' queued)"

text \<open>The loop of \<open>Server::run\<close>. The list holds the batches of calls that the successive
  waits deliver; when none is left and the loop condition still holds the thread stays
  in its wait for ever, which is the result \<open>None\<close>.\<close>

fun run_loop :: "state \<Rightarrow> apc list list \<Rightarrow> (fault + state) option" where
  "run_loop s [] =
     (if \<not> terminate s \<or> length (watchPoints s) > 0 then None else Some (Inr s))"
| "run_loop s (batch # later) =
     (if \<not> terminate s \<or> length (watchPoints s) > 0
      then (case SleepEx s batch of
              Inl f \<Rightarrow> Some (Inl f)
            | Inr s' \<Rightarrow> run_loop s' later)
      else Some (Inr s))"

text \<open>\<open>Server::run\<close> up to the notification of \<open>watcherThreadStarted\<close>; \<open>None\<close> when
  \<open>attach_jni\<close> fails and the thread returns without notifying.\<close>

definition run_enter :: "state \<Rightarrow> bool \<Rightarrow> state option" where
  "run_enter s attached =
     (let s1 = emit AttachJni s
      in if \<not> attached then None else Some (emit (Log Info) s1))"

text \<open>\<open>Server::run\<close> from the loop to its end.\<close>

definition run_rest :: "state \<Rightarrow> apc list list \<Rightarrow> (fault + state) option" where
  "run_rest s batches =
     (case run_loop s batches of
        None \<Rightarrow> None
      | Some (Inl f) \<Rightarrow> Some (Inl f)
      | Some (Inr s') \<Rightarrow> Some (Inr (emit DetachJni (emit (Log Info) s'))))"

definition run :: "state \<Rightarrow> bool \<Rightarrow> apc list list \<Rightarrow> (fault + state) option" where
  "run s attached batches =
     (case run_enter s attached of
        None \<Rightarrow> Some (Inr (emit Stderr (emit AttachJni s)))
      | Some s1 \<Rightarrow> run_rest s1 batches)"

text \<open>The constructor \<open>Server::Server\<close>; it waits for \<open>watcherThreadStarted\<close>, for ever
  (\<open>None\<close>) when the thread never notifies. The header that initialises \<open>terminate\<close> is
  missing; the flag starts out false.\<close>

definition new_Server :: "state \<Rightarrow> bool \<Rightarrow> state option" where
  "new_Server s attached =
     (let s1 = emit NewGlobalRef (s\<lparr>watchPoints := [], terminate := False, alive := True\<rparr>);
          s2 = emit StartThread (s1\<lparr>joinable := True\<rparr>)
      in case run_enter s2 attached of
           None \<Rightarrow> None
         | Some s3 \<Rightarrow> Some (emit SetThreadPriority s3))"

text \<open>\<open>WatchPoint::awaitListeningStarted\<close>: queue the call of \<open>listen\<close>, wait on
  \<open>listenerStarted\<close>, return the status. \<open>wake\<close> says how the wait ends. With
  \<open>Notified\<close> the run-loop thread has run the queued call and the wait ends at its
  notification. With \<open>Spurious\<close> the wait ends before \<open>listen\<close> has assigned a
  status; the call stays queued and the run-loop thread runs it later. With \<open>Never\<close>
  the queued call never runs and nothing wakes the wait.\<close>

definition awaitListeningStarted ::
  "state \<Rightarrow> addr \<Rightarrow> WatchPoint \<Rightarrow> wakeup \<Rightarrow> bool \<Rightarrow> (watch_status option \<times> state) option" where
  "awaitListeningStarted s p this wake success =
     (let s1 = emit (QueueStartWatch p) s
      in case wake of
           Never \<Rightarrow> None
         | Spurious \<Rightarrow> Some (map_option status (heap s1 p), s1)
         | Notified \<Rightarrow>
             (let s2 = listen s1 p this success
              in Some (map_option status (heap s2 p), s2)))"

text \<open>\<open>Server::startWatching\<close>; \<open>created\<close> is the result of \<open>CreateFileW\<close>, \<open>None\<close> for
  \<open>INVALID_HANDLE_VALUE\<close>.\<close>

definition Server_startWatching ::
  "state \<Rightarrow> wstring \<Rightarrow> HANDLE option \<Rightarrow> wakeup \<Rightarrow> bool \<Rightarrow> state option" where
  "Server_startWatching s pth created wake success =
     (let s0 = emit (CreateFileW pth) s
      in case created of
           None \<Rightarrow> Some (emit (Log Severe) s0)
         | Some h \<Rightarrow>
             (let watchPoint = next_addr s0;
                  this = \<lparr>path = pth, directoryHandle = h, status = WATCH_UNINITIALIZED\<rparr>;
                  s1 = s0\<lparr>heap := (heap s0)(watchPoint \<mapsto> this), next_addr := Suc watchPoint\<rparr>
              in case awaitListeningStarted s1 watchPoint this wake success of
                   None \<Rightarrow> None
                 | Some (ret, s2) \<Rightarrow>
                     if ret = Some WATCH_LISTENING
                     then Some (s2\<lparr>watchPoints := watchPoints s2 @ [watchPoint]\<rparr>)
                     else Some (delete_WatchPoint watchPoint (emit (Log Severe) s2))))"

text \<open>\<open>Server::close\<close>. \<open>queued\<close> is the result of \<open>QueueUserAPC\<close>; \<open>pending\<close> are the
  calls already queued for the run-loop thread, \<open>later\<close> the batches its following waits
  deliver. \<open>join\<close> returns when \<open>run\<close> has returned.\<close>

definition Server_close ::
  "state \<Rightarrow> bool \<Rightarrow> (HANDLE \<Rightarrow> bool) \<Rightarrow> (HANDLE \<Rightarrow> bool) \<Rightarrow> apc list \<Rightarrow> apc list list
    \<Rightarrow> (fault + state) option" where
  "Server_close s queued cancelled closed pending later =
     (let s1 = emit QueueTermination (emit (Log Fine) s)
      in if \<not> queued
         then Some (Inr (emit DeleteGlobalRef (emit (Log Severe) s1)))
         else (case run_rest s1 ((pending @ [Termination cancelled closed]) # later) of
                 None \<Rightarrow> None
               | Some (Inl f) \<Rightarrow> Some (Inl f)
               | Some (Inr s2) \<Rightarrow>
                   Some (Inr (emit DeleteGlobalRef (emit JoinThread (s2\<lparr>joinable := False\<rparr>))))))"

section \<open>JNI calls\<close>

text \<open>The loop of the JNI function \<open>startWatching\<close> over the paths. Each path comes
  with what the operating system decides for its registration. The conversion
  \<open>java_to_wchar_path\<close> is not part of the sources; the paths are taken as converted.\<close>

fun register_all ::
  "state \<Rightarrow> (wstring \<times> HANDLE option \<times> wakeup \<times> bool) list \<Rightarrow> state option" where
  "register_all s [] = Some s"
| "register_all s ((pth, created, wake, success) # rest) =
     (case Server_startWatching s pth created wake success of
        None \<Rightarrow> None
      | Some s' \<Rightarrow> register_all s' rest)"

text \<open>\<open>Java_..._WindowsFileEventFunctions_startWatching\<close>; \<open>jvm_ok\<close> says whether
  \<open>GetJavaVM\<close> returns \<open>JNI_OK\<close>.\<close>

definition jni_startWatching ::
  "state \<Rightarrow> bool \<Rightarrow> bool \<Rightarrow> (wstring \<times> HANDLE option \<times> wakeup \<times> bool) list
    \<Rightarrow> (jobject \<times> state) option" where
  "jni_startWatching s jvm_ok attached paths =
     (if \<not> jvm_ok then Some (NULL, emit (MarkFailed ''Could not store JVM instance.'') s)
      else if length paths = 0 then Some (NULL, emit (MarkFailed ''No paths given to watch.'') s)
      else (case new_Server s attached of
              None \<Rightarrow> None
            | Some server \<Rightarrow>
                (case register_all server paths of
                   None \<Rightarrow> None
                 | Some s' \<Rightarrow> Some (WatcherImpl, s'))))"

text \<open>\<open>Java_..._WindowsFileEventFunctions_stopWatching\<close>: the buffer address is taken for
  a \<open>Server\<close>, closed and deleted. The destructor of \<open>Server\<close> destroys its
  \<open>watcherThread\<close>, which calls \<open>std::terminate\<close> if the thread has not been joined.\<close>

definition jni_stopWatching ::
  "state \<Rightarrow> bool \<Rightarrow> (HANDLE \<Rightarrow> bool) \<Rightarrow> (HANDLE \<Rightarrow> bool) \<Rightarrow> apc list \<Rightarrow> apc list list
    \<Rightarrow> (fault + state) option" where
  "jni_stopWatching s queued cancelled closed pending later =
     (if \<not> alive s then Some (Inl UseAfterFree)
      else (case Server_close s queued cancelled closed pending later of
              None \<Rightarrow> None
            | Some (Inl f) \<Rightarrow> Some (Inl f)
            | Some (Inr s') \<Rightarrow>
                if joinable s' then Some (Inl StdTerminate)
                else Some (Inr (s'\<lparr>alive := False\<rparr>))))"

section \<open>Observations on traces\<close>

text \<open>The calls of \<open>pathChanged\<close> among some effects, in order.\<close>

fun sink_calls :: "effect list \<Rightarrow> (ChangeType \<times> wstring) list" where
  "sink_calls [] = []"
| "sink_calls (PathChanged t p # es) = (t, p) # sink_calls es"
| "sink_calls (e # es) = sink_calls es"

text \<open>The state before the first JNI call: no server, nothing on the heap.\<close>

definition initial :: state where
  "initial = \<lparr>watchPoints = [], terminate = False, joinable = False, alive = False,
              heap = Map.empty, next_addr = 0, destroyed = [], trace = []\<rparr>"

text \<open>The effects that cancel reads and release handles, in order.\<close>

fun handle_calls :: "effect list \<Rightarrow> effect list" where
  "handle_calls [] = []"
| "handle_calls (CancelIo h # es) = CancelIo h # handle_calls es"
| "handle_calls (CloseHandle h # es) = CloseHandle h # handle_calls es"
| "handle_calls (e # es) = handle_calls es"

text \<open>The messages with which a JNI call marked its result as failed.\<close>

fun failures :: "effect list \<Rightarrow> string list" where
  "failures [] = []"
| "failures (MarkFailed m # es) = m # failures es"
| "failures (e # es) = failures es"

text \<open>The handles of the live objects among some pointers.\<close>

definition handles_of :: "state \<Rightarrow> addr list \<Rightarrow> HANDLE list" where
  "handles_of s ps = List.map_filter (\<lambda>p. map_option directoryHandle (heap s p)) ps"

text \<open>Every registered pointer refers to a live object.\<close>

definition registered_live :: "state \<Rightarrow> bool" where
  "registered_live s = list_all (\<lambda>p. heap s p \<noteq> None) (watchPoints s)"

text \<open>The allocator has not yet handed out the address of any registered pointer.\<close>

definition fresh_next :: "state \<Rightarrow> bool" where
  "fresh_next s = list_all (\<lambda>p. p < next_addr s) (watchPoints s)"

text \<open>Absolute Windows paths, as \<open>java.io.File.isAbsolute\<close> decides in the tests'
  callback: a UNC prefix or a drive letter followed by a colon and a backslash.\<close>

definition is_letter :: "wchar \<Rightarrow> bool" where
  "is_letter c = ((0x41 \<le> c \<and> c \<le> 0x5A) \<or> (0x61 \<le> c \<and> c \<le> 0x7A))"

definition is_absolute :: "wstring \<Rightarrow> bool" where
  "is_absolute p =
     (take 2 p = [backslash, backslash] \<or>
      (case p of [] \<Rightarrow> False | d # rest \<Rightarrow> is_letter d \<and> take 2 rest = [colon, backslash]))"

text \<open>The characters that \<open>wstring(info->FileName, 0, info->FileNameLength / sizeof(wchar_t))\<close>
  takes from a record, as \<open>handlePathChanged\<close> does.\<close>

definition file_name :: "FILE_NOTIFY_INFORMATION \<Rightarrow> wstring" where
  "file_name info =
     take (unat (FileNameLength info) div sizeof_wchar_t)
       (takeWhile (\<lambda>c. c \<noteq> 0) (FileName info))"

text \<open>An operating-system call that fails on every handle.\<close>

definition fails :: "HANDLE \<Rightarrow> bool" where
  "fails h = False"

text \<open>The records that the loop of \<open>handleEvent\<close> reaches: those up to and including
  the first whose \<open>NextEntryOffset\<close> is zero.\<close>

fun chain :: "FILE_NOTIFY_INFORMATION list \<Rightarrow> FILE_NOTIFY_INFORMATION list" where
  "chain [] = []"
| "chain (current # rest) = (if NextEntryOffset current = 0 then [current] else current # chain rest)"

text \<open>Example data: the directory \<open>C:\r\<close>, and a server that watches it through handle 7
  with the object at address 0.\<close>

definition root_dir :: wstring where
  "root_dir = [0x43, 0x3A, 0x5C, 0x72]"

definition root_watch :: WatchPoint where
  "root_watch = \<lparr>path = root_dir, directoryHandle = 7, status = WATCH_LISTENING\<rparr>"

definition watching :: state where
  "watching = \<lparr>watchPoints = [0], terminate = False, joinable = True, alive = True,
               heap = [0 \<mapsto> root_watch], next_addr = 1, destroyed = [], trace = []\<rparr>"

section \<open>Properties\<close>

subsection \<open>Traces\<close>

lemma sink_calls_append: "sink_calls (xs @ ys) = sink_calls xs @ sink_calls ys"
  by (induction xs rule: sink_calls.induct) simp_all

lemma handle_calls_append: "handle_calls (xs @ ys) = handle_calls xs @ handle_calls ys"
  by (induction xs rule: handle_calls.induct) simp_all

lemma failures_append: "failures (xs @ ys) = failures xs @ failures ys"
  by (induction xs rule: failures.induct) simp_all

lemma action_codes_distinct:
  "distinct [FILE_ACTION_ADDED, FILE_ACTION_REMOVED, FILE_ACTION_MODIFIED,
             FILE_ACTION_RENAMED_OLD_NAME, FILE_ACTION_RENAMED_NEW_NAME]"
  by (simp add: FILE_ACTION_ADDED_def FILE_ACTION_REMOVED_def FILE_ACTION_MODIFIED_def
      FILE_ACTION_RENAMED_OLD_NAME_def FILE_ACTION_RENAMED_NEW_NAME_def)

subsection \<open>Change types\<close>

text \<open>
  Claim C1. For every directory-change record that \<open>handlePathChanged\<close> processes,
  exactly one event is reported, and its change type follows from the record's action code:
  ADDED and RENAMED\_NEW\_NAME give CREATED, REMOVED and RENAMED\_OLD\_NAME give REMOVED,
  MODIFIED gives MODIFIED, and every other action code gives UNKNOWN.
\<close>

theorem handlePathChanged_type:
  "\<exists>type changedPath.
     sink_calls (trace (handlePathChanged s this info)) =
       sink_calls (trace s) @ [(type, changedPath)] \<and>
     (Action info = FILE_ACTION_ADDED \<or> Action info = FILE_ACTION_RENAMED_NEW_NAME
        \<longrightarrow> type = FILE_EVENT_CREATED) \<and>
     (Action info = FILE_ACTION_REMOVED \<or> Action info = FILE_ACTION_RENAMED_OLD_NAME
        \<longrightarrow> type = FILE_EVENT_REMOVED) \<and>
     (Action info = FILE_ACTION_MODIFIED \<longrightarrow> type = FILE_EVENT_MODIFIED) \<and>
     (Action info \<notin> {FILE_ACTION_ADDED, FILE_ACTION_RENAMED_NEW_NAME, FILE_ACTION_REMOVED,
                     FILE_ACTION_RENAMED_OLD_NAME, FILE_ACTION_MODIFIED}
        \<longrightarrow> type = FILE_EVENT_UNKNOWN)"
  using action_codes_distinct
  by (auto simp: handlePathChanged_def reportEvent_def emit_def Let_def sink_calls_append)

theorem handlePathChanged_type_witness:
  "\<exists>changedPath.
     sink_calls (trace (handlePathChanged watching root_watch
       \<lparr>NextEntryOffset = 0, Action = FILE_ACTION_RENAMED_NEW_NAME, FileNameLength = 2,
        FileName = [0x61]\<rparr>)) = [(FILE_EVENT_CREATED, changedPath)]"
  using handlePathChanged_type [of watching root_watch
       "\<lparr>NextEntryOffset = 0, Action = FILE_ACTION_RENAMED_NEW_NAME, FileNameLength = 2,
        FileName = [0x61]\<rparr>"]
  by (auto simp: watching_def)

subsection \<open>Termination\<close>

lemma WatchPoint_close_frame:
  "terminate (WatchPoint_close s this a b) = terminate s"
  "watchPoints (WatchPoint_close s this a b) = watchPoints s"
  "heap (WatchPoint_close s this a b) = heap s"
  "alive (WatchPoint_close s this a b) = alive s"
  by (simp_all add: WatchPoint_close_def emit_def Let_def)

lemma WatchPoint_close_calls:
  "handle_calls (trace (WatchPoint_close s this a b)) =
     handle_calls (trace s) @ [CancelIo (directoryHandle this), CloseHandle (directoryHandle this)]"
  by (simp add: WatchPoint_close_def emit_def Let_def handle_calls_append)

lemma handles_of_Cons:
  "handles_of s (p # ps) =
     (case heap s p of None \<Rightarrow> handles_of s ps | Some w \<Rightarrow> directoryHandle w # handles_of s ps)"
  by (simp add: handles_of_def split: option.splits)

lemma handles_of_heap: "heap s' = heap s \<Longrightarrow> handles_of s' ps = handles_of s ps"
  by (simp add: handles_of_def)

lemma close_all_live:
  "list_all (\<lambda>p. heap s p \<noteq> None) ps \<Longrightarrow>
   \<exists>s'. close_all s ps c k = Inr s' \<and> terminate s' = terminate s \<and>
        watchPoints s' = watchPoints s \<and> heap s' = heap s \<and>
        length (handles_of s ps) = length ps \<and>
        handle_calls (trace s') =
          handle_calls (trace s) @ concat (map (\<lambda>h. [CancelIo h, CloseHandle h]) (handles_of s ps))"
proof (induction ps arbitrary: s)
  case Nil
  then show ?case by (simp add: handles_of_def)
next
  case (Cons p ps)
  from Cons.prems obtain w where w: "heap s p = Some w" by auto
  let ?s1 = "WatchPoint_close s w (c (directoryHandle w)) (k (directoryHandle w))"
  have "list_all (\<lambda>p. heap ?s1 p \<noteq> None) ps"
    using Cons.prems by (simp add: WatchPoint_close_frame)
  from Cons.IH [OF this] obtain s' where s':
    "close_all ?s1 ps c k = Inr s'" "terminate s' = terminate ?s1"
    "watchPoints s' = watchPoints ?s1" "heap s' = heap ?s1"
    "length (handles_of ?s1 ps) = length ps"
    "handle_calls (trace s') =
       handle_calls (trace ?s1) @ concat (map (\<lambda>h. [CancelIo h, CloseHandle h]) (handles_of ?s1 ps))"
    by blast
  have h: "handles_of ?s1 ps = handles_of s ps"
    by (rule handles_of_heap) (simp add: WatchPoint_close_frame)
  show ?case
    using w s' h
    by (simp add: WatchPoint_close_frame WatchPoint_close_calls handles_of_Cons)
qed

lemma run_loop_exit:
  "run_loop t batches = Some (Inr t') \<Longrightarrow> terminate t' \<and> watchPoints t' = []"
  by (induction batches arbitrary: t) (auto split: if_splits sum.splits)

lemma run_loop_done:
  "terminate t \<Longrightarrow> watchPoints t = [] \<Longrightarrow> run_loop t batches = Some (Inr t)"
  by (cases batches) simp_all

text \<open>
  Claim C2. The termination call first sets \<open>terminate\<close>: the closing of the watch
  points starts from a state \<open>s1\<close> in which the flag is set and nothing else has happened.
  It then calls \<open>CancelIo\<close> and \<open>CloseHandle\<close>, in this order, on the handle of every
  registered watch point, and leaves the collection as it is. The loop of \<open>run\<close> returns
  only in a state where \<open>terminate\<close> is set and no watch point is registered, and in
  such a state it does return.
\<close>

theorem requestTermination_then_exit:
  assumes "registered_live s"
  shows "(\<exists>s1 s'. terminate s1 \<and> trace s1 = trace s \<and>
            requestTermination s cancelled closed = close_all s1 (watchPoints s) cancelled closed \<and>
            close_all s1 (watchPoints s) cancelled closed = Inr s' \<and>
            terminate s' \<and> watchPoints s' = watchPoints s \<and>
            length (handles_of s (watchPoints s)) = length (watchPoints s) \<and>
            handle_calls (trace s') =
              handle_calls (trace s) @
              concat (map (\<lambda>h. [CancelIo h, CloseHandle h]) (handles_of s (watchPoints s)))) \<and>
         (\<forall>t'. run_loop t batches = Some (Inr t') \<longrightarrow> terminate t' \<and> watchPoints t' = []) \<and>
         (terminate t \<and> watchPoints t = [] \<longrightarrow> run_loop t batches = Some (Inr t))"
proof -
  let ?s1 = "s\<lparr>terminate := True\<rparr>"
  have "list_all (\<lambda>p. heap ?s1 p \<noteq> None) (watchPoints s)"
    using assms by (simp add: registered_live_def)
  from close_all_live [OF this, of cancelled closed] obtain s' where s':
    "close_all ?s1 (watchPoints s) cancelled closed = Inr s'" "terminate s' = terminate ?s1"
    "watchPoints s' = watchPoints ?s1" 
    "length (handles_of ?s1 (watchPoints s)) = length (watchPoints s)"
    "handle_calls (trace s') =
       handle_calls (trace ?s1) @
       concat (map (\<lambda>h. [CancelIo h, CloseHandle h]) (handles_of ?s1 (watchPoints s)))"
    by blast
  have h: "handles_of ?s1 (watchPoints s) = handles_of s (watchPoints s)"
    by (rule handles_of_heap) simp
  have first: "\<exists>s1 s'. terminate s1 \<and> trace s1 = trace s \<and>
            requestTermination s cancelled closed = close_all s1 (watchPoints s) cancelled closed \<and>
            close_all s1 (watchPoints s) cancelled closed = Inr s' \<and>
            terminate s' \<and> watchPoints s' = watchPoints s \<and>
            length (handles_of s (watchPoints s)) = length (watchPoints s) \<and>
            handle_calls (trace s') =
              handle_calls (trace s) @
              concat (map (\<lambda>h. [CancelIo h, CloseHandle h]) (handles_of s (watchPoints s)))"
    apply (rule exI [of _ ?s1])
    apply (rule exI [of _ s'])
    using s' h by (simp add: requestTermination_def Let_def)
  show ?thesis
    using first run_loop_exit [of t batches] run_loop_done [of t batches] by blast
qed

theorem requestTermination_then_exit_witness:
  "registered_live watching \<and>
   (\<exists>s'. requestTermination watching (\<lambda>h. True) (\<lambda>h. True) = Inr s' \<and> terminate s' \<and>
      watchPoints s' = [0] \<and> handle_calls (trace s') = [CancelIo 7, CloseHandle 7]) \<and>
   (\<exists>t'. run_loop watching
            [[Termination (\<lambda>h. True) (\<lambda>h. True)], [Completion 0 ERROR_OPERATION_ABORTED 0 [] False]]
          = Some (Inr t') \<and> terminate t' \<and> watchPoints t' = [])"
proof -
  have live: "registered_live watching"
    by (simp add: registered_live_def watching_def)
  have ran: "\<exists>t'. run_loop watching
            [[Termination (\<lambda>h. True) (\<lambda>h. True)], [Completion 0 ERROR_OPERATION_ABORTED 0 [] False]]
          = Some (Inr t')"
    by (simp add: watching_def root_watch_def requestTermination_def WatchPoint_close_def
        emit_def handleEvent_def set_status_def reportFinished_def delete_WatchPoint_def Let_def)
  have hs: "handles_of watching (watchPoints watching) = [7]"
    by (simp add: handles_of_def watching_def root_watch_def)
  show ?thesis
    using live ran hs
      requestTermination_then_exit [OF live, of "\<lambda>h. True" "\<lambda>h. True" watching
        "[[Termination (\<lambda>h. True) (\<lambda>h. True)], [Completion 0 ERROR_OPERATION_ABORTED 0 [] False]]"]
    by (auto simp: watching_def)
qed

subsection \<open>Live watch points\<close>

lemma emit_frame:
  "terminate (emit e s) = terminate s"
  "watchPoints (emit e s) = watchPoints s"
  "heap (emit e s) = heap s"
  "alive (emit e s) = alive s"
  "trace (emit e s) = trace s @ [e]"
  by (simp_all add: emit_def)

lemma handlePathChanged_frame:
  "heap (handlePathChanged s this info) = heap s"
  "watchPoints (handlePathChanged s this info) = watchPoints s"
  "terminate (handlePathChanged s this info) = terminate s"
  by (simp_all add: handlePathChanged_def reportEvent_def emit_def Let_def)

lemma walk_frame:
  "walk s this buffer = Inr s' \<Longrightarrow>
     heap s' = heap s \<and> watchPoints s' = watchPoints s \<and> terminate s' = terminate s"
  by (induction buffer arbitrary: s)
    (auto simp: Let_def handlePathChanged_frame split: if_splits)

lemma reportFinished_live: "registered_live s \<Longrightarrow> registered_live (reportFinished s p)"
  by (simp add: registered_live_def reportFinished_def delete_WatchPoint_def list_all_iff)

lemma listen_live:
  "registered_live s \<Longrightarrow> registered_live (listen s p this success)"
  by (simp add: registered_live_def listen_def set_status_def emit_def Let_def list_all_iff)

lemma handleEvent_live:
  assumes "registered_live s" and "handleEvent s p this errorCode n buffer rearmed = Inr s'"
  shows "registered_live s'"
proof (cases "errorCode = ERROR_OPERATION_ABORTED")
  case True
  have "registered_live (set_status p this WATCH_FINISHED
          (emit (Log Info) (set_status p this WATCH_NOT_LISTENING s)))"
    using assms(1) by (simp add: registered_live_def set_status_def emit_def list_all_iff)
  from reportFinished_live [OF this, of p] True assms(2) show ?thesis
    by (simp add: handleEvent_def Let_def)
next
  case False
  let ?s0 = "set_status p this WATCH_NOT_LISTENING s"
  have live0: "registered_live ?s0"
    using assms(1) by (simp add: registered_live_def set_status_def list_all_iff)
  obtain s1 where s1: "(if n = 0 then Inr (reportEvent ?s0 FILE_EVENT_INVALIDATE (path this))
                        else walk ?s0 this buffer) = Inr s1"
    using assms(2) False by (auto simp: handleEvent_def Let_def split: sum.splits)
  have "heap s1 = heap ?s0 \<and> watchPoints s1 = watchPoints ?s0"
    using s1 walk_frame [of ?s0 this buffer s1]
    by (auto simp: reportEvent_def emit_def split: if_splits)
  with live0 have live1: "registered_live s1"
    by (simp add: registered_live_def)
  have "s' = listen s1 p this rearmed \<or> s' = reportFinished (listen s1 p this rearmed) p"
    using assms(2) False s1 by (auto simp: handleEvent_def Let_def split: if_splits)
  then show ?thesis
    using listen_live [OF live1, of p this rearmed] reportFinished_live by blast
qed

lemma dispatch_live:
  assumes "registered_live s" and "dispatch a s = Inr s'"
  shows "registered_live s'"
proof (cases a)
  case (StartWatch p success)
  with assms show ?thesis
    by (auto simp: listen_live split: option.splits)
next
  case (Completion p errorCode n buffer rearmed)
  with assms show ?thesis
    by (auto split: option.splits intro: handleEvent_live)
next
  case (Termination cancelled closed)
  have "list_all (\<lambda>p. heap (s\<lparr>terminate := True\<rparr>) p \<noteq> None) (watchPoints s)"
    using assms(1) by (simp add: registered_live_def)
  from close_all_live [OF this, of cancelled closed] Termination assms show ?thesis
    by (auto simp: requestTermination_def registered_live_def Let_def)
qed

lemma SleepEx_live:
  "registered_live s \<Longrightarrow> SleepEx s batch = Inr s' \<Longrightarrow> registered_live s'"
  by (induction batch arbitrary: s) (auto split: sum.splits dest: dispatch_live)

text \<open>The servers that the JNI call \<open>startWatching\<close> returns satisfy
  \<open>registered_live\<close>, and the calls the run-loop thread executes keep it.\<close>

lemma startWatching_live:
  assumes "registered_live s" and "fresh_next s"
    and "Server_startWatching s pth created wake success = Some s'"
  shows "registered_live s' \<and> fresh_next s'"
proof (cases created)
  case None
  with assms show ?thesis
    by (auto simp: Server_startWatching_def registered_live_def fresh_next_def emit_def)
next
  case (Some h)
  have ne: "\<forall>p \<in> set (watchPoints s). p \<noteq> next_addr s"
    using assms(2) by (auto simp: fresh_next_def list_all_iff)
  have lt: "\<forall>p \<in> set (watchPoints s). p < Suc (next_addr s)"
    using assms(2) by (auto simp: fresh_next_def list_all_iff)
  from assms Some ne lt show ?thesis
    by (cases wake; cases success)
      (auto simp: Server_startWatching_def awaitListeningStarted_def listen_def set_status_def
        delete_WatchPoint_def registered_live_def fresh_next_def emit_def Let_def list_all_iff)
qed

lemma register_all_live:
  "registered_live s \<Longrightarrow> fresh_next s \<Longrightarrow> register_all s paths = Some s' \<Longrightarrow>
     registered_live s' \<and> fresh_next s'"
proof (induction paths arbitrary: s)
  case Nil
  then show ?case by simp
next
  case (Cons a paths)
  obtain pth created wake success where a: "a = (pth, created, wake, success)"
    by (cases a) auto
  from Cons.prems(3) a obtain s1 where
    s1: "Server_startWatching s pth created wake success = Some s1"
    and rest: "register_all s1 paths = Some s'"
    by (auto split: option.splits)
  from startWatching_live [OF Cons.prems(1,2) s1] Cons.IH [OF _ _ rest]
  show ?case by blast
qed

lemma jni_startWatching_live:
  assumes "jni_startWatching s jvm_ok attached paths = Some (WatcherImpl, s')"
  shows "registered_live s'"
proof -
  from assms obtain server where
    srv: "new_Server s attached = Some server" and reg: "register_all server paths = Some s'"
    by (auto simp: jni_startWatching_def split: if_splits option.splits)
  from srv have "registered_live server \<and> fresh_next server"
    by (auto simp: new_Server_def run_enter_def registered_live_def fresh_next_def emit_def
        Let_def split: if_splits)
  with register_all_live reg show ?thesis by blast
qed

subsection \<open>Zero-byte and aborted completions\<close>

text \<open>An aborted completion on a live watch point reports nothing to the callback and
  issues no read, whatever its byte count.\<close>

lemma aborted_reports_nothing:
  assumes "heap s p = Some this"
  shows "\<exists>s'. dispatch (Completion p ERROR_OPERATION_ABORTED bytesTransferred buffer rearmed) s =
              Inr s' \<and>
           trace s' = trace s @ [Log Info]"
  using assms
  by (simp add: handleEvent_def set_status_def reportFinished_def delete_WatchPoint_def emit_def)

text \<open>An aborted completion that transferred no bytes: the watch point is finished and
  freed, nothing is reported to the callback and no read is issued.\<close>

theorem zero_bytes_aborted_counterexample:
  "dispatch (Completion 0 ERROR_OPERATION_ABORTED 0 [] True) watching =
     Inr \<lparr>watchPoints = [], terminate = False, joinable = True, alive = True,
          heap = Map.empty, next_addr = 1,
          destroyed = [(0, \<lparr>path = root_dir, directoryHandle = 7, status = WATCH_FINISHED\<rparr>)],
          trace = [Log Info]\<rparr>"
  by (simp add: watching_def root_watch_def handleEvent_def set_status_def reportFinished_def
      delete_WatchPoint_def emit_def)

text \<open>
  Claim C3, amended. For every completion on a live watch point that transfers zero bytes
  and whose error code is not \<open>ERROR_OPERATION_ABORTED\<close>, the watch point reports exactly
  one INVALIDATE event whose path is the watched root and then calls
  \<open>ReadDirectoryChangesW\<close> on its handle again. When that call succeeds the watch point
  is listening and stays registered; when it fails the watch point is removed and freed.
\<close>

theorem zero_bytes_invalidates:
  assumes "heap s p = Some this" and "errorCode \<noteq> ERROR_OPERATION_ABORTED"
  shows "\<exists>s'. dispatch (Completion p errorCode 0 buffer rearmed) s = Inr s' \<and>
           trace s' = trace s @
             [PathChanged FILE_EVENT_INVALIDATE (path this),
              ReadDirectoryChangesW (directoryHandle this)] @
             (if rearmed then [] else [Log Warning]) \<and>
           sink_calls (trace s') = sink_calls (trace s) @ [(FILE_EVENT_INVALIDATE, path this)] \<and>
           (rearmed \<longrightarrow> heap s' p = Some (this\<lparr>status := WATCH_LISTENING\<rparr>) \<and>
                        watchPoints s' = watchPoints s) \<and>
           (\<not> rearmed \<longrightarrow> heap s' p = None \<and> watchPoints s' = removeAll p (watchPoints s))"
  using assms
  by (simp add: handleEvent_def set_status_def reportFinished_def delete_WatchPoint_def
      reportEvent_def listen_def emit_def Let_def sink_calls_append)

theorem zero_bytes_invalidates_witness:
  "\<exists>s'. dispatch (Completion 0 0 0 [] True) watching = Inr s' \<and>
        trace s' = [PathChanged FILE_EVENT_INVALIDATE root_dir, ReadDirectoryChangesW 7] \<and>
        heap s' 0 = Some root_watch \<and> watchPoints s' = [0]"
proof -
  have live: "heap watching 0 = Some root_watch"
    by (simp add: watching_def)
  have code: "(0 :: DWORD) \<noteq> ERROR_OPERATION_ABORTED"
    by (simp add: ERROR_OPERATION_ABORTED_def)
  show ?thesis
    using zero_bytes_invalidates [OF live code, of "[]" True]
    by (auto simp: watching_def root_watch_def)
qed

text \<open>
  Claim C4. For every completion on a live watch point whose error code is
  \<open>ERROR_OPERATION_ABORTED\<close>, the watch point has the status FINISHED when the server
  destroys it, whatever its status was before; the server removes it from its collection
  and frees it, no other object is touched, and nothing is reported to the callback: the
  only effect is one log call.
\<close>

theorem aborted_finishes:
  assumes "heap s p = Some this"
  shows "\<exists>s'. dispatch (Completion p ERROR_OPERATION_ABORTED bytesTransferred buffer rearmed) s =
              Inr s' \<and>
           destroyed s' = destroyed s @ [(p, this\<lparr>status := WATCH_FINISHED\<rparr>)] \<and>
           watchPoints s' = removeAll p (watchPoints s) \<and>
           p \<notin> set (watchPoints s') \<and>
           heap s' = (heap s)(p := None) \<and>
           sink_calls (trace s') = sink_calls (trace s) \<and>
           trace s' = trace s @ [Log Info]"
  using assms
  by (simp add: handleEvent_def set_status_def reportFinished_def delete_WatchPoint_def emit_def
      sink_calls_append)

theorem aborted_finishes_witness:
  "\<exists>s'. dispatch (Completion 0 ERROR_OPERATION_ABORTED 0 [] True) watching = Inr s' \<and>
        destroyed s' = [(0, \<lparr>path = root_dir, directoryHandle = 7, status = WATCH_FINISHED\<rparr>)] \<and>
        watchPoints s' = [] \<and> heap s' 0 = None \<and> sink_calls (trace s') = []"
proof -
  have live: "heap watching 0 = Some root_watch"
    by (simp add: watching_def)
  show ?thesis
    using aborted_finishes [OF live, of 0 "[]" True]
    by (auto simp: watching_def root_watch_def)
qed

subsection \<open>Registration\<close>




text \<open>A spurious wake-up ends the wait before the queued call has run: the status read is
  still UNINITIALIZED, the watch point is destroyed and not registered, and the call
  that is still queued then works on the freed object.\<close>

lemma startWatching_spurious_wakeup:
  "\<exists>s'. Server_startWatching s pth (Some h) Spurious success = Some s' \<and>
      trace s' = trace s @ [CreateFileW pth, QueueStartWatch (next_addr s), Log Severe] \<and>
      watchPoints s' = watchPoints s \<and>
      heap s' (next_addr s) = None \<and>
      destroyed s' = destroyed s @
        [(next_addr s, \<lparr>path = pth, directoryHandle = h, status = WATCH_UNINITIALIZED\<rparr>)] \<and>
      dispatch (StartWatch (next_addr s) success) s' = Inl UseAfterFree"
  by (simp add: Server_startWatching_def awaitListeningStarted_def delete_WatchPoint_def
      emit_def Let_def)

text \<open>
  Claim C6. The claim asks that registering a path that is already registered fails and
  leaves the collection unchanged. The code has no such check: the JNI call with the same
  directory given twice, both opened and both reads started, registers two watch points for
  that path and marks no failure.
\<close>

theorem duplicate_path_watched_twice:
  "\<exists>s'. jni_startWatching initial True True
          [(root_dir, Some 7, Notified, True), (root_dir, Some 8, Notified, True)] =
            Some (WatcherImpl, s') \<and>
        watchPoints s' = [0, 1] \<and>
        map_option path (heap s' 0) = Some root_dir \<and>
        map_option path (heap s' 1) = Some root_dir \<and>
        failures (trace s') = []"
  by (simp add: jni_startWatching_def new_Server_def run_enter_def Server_startWatching_def
      awaitListeningStarted_def listen_def set_status_def emit_def initial_def Let_def)

subsection \<open>Shutdown\<close>

text \<open>
  Claim C7. The claim asks that closing a closed watcher fails with an error. The code has
  no such check. \<open>Server::close\<close>, called again on a server it has closed and whose
  thread no longer takes calls, logs, deletes the global reference once more and returns
  normally, marking no failure. Through JNI the first \<open>stopWatching\<close> also deletes the
  server, and a second one on the same watcher works on the freed object.
\<close>

theorem second_close_not_rejected:
  "\<exists>s1 s2.
     Server_close watching True (\<lambda>h. True) (\<lambda>h. True) []
       [[Completion 0 ERROR_OPERATION_ABORTED 0 [] False]] = Some (Inr s1) \<and>
     Server_close s1 False (\<lambda>h. True) (\<lambda>h. True) [] [] = Some (Inr s2) \<and>
     trace s2 = trace s1 @ [Log Fine, QueueTermination, Log Severe, DeleteGlobalRef] \<and>
     failures (trace s2) = [] \<and>
     jni_stopWatching watching True (\<lambda>h. True) (\<lambda>h. True) []
       [[Completion 0 ERROR_OPERATION_ABORTED 0 [] False]] = Some (Inr (s1\<lparr>alive := False\<rparr>)) \<and>
     jni_stopWatching (s1\<lparr>alive := False\<rparr>) True (\<lambda>h. True) (\<lambda>h. True) [] [] =
       Some (Inl UseAfterFree)"
  by (simp add: jni_stopWatching_def Server_close_def run_rest_def watching_def root_watch_def
      requestTermination_def WatchPoint_close_def handleEvent_def set_status_def
      reportFinished_def delete_WatchPoint_def emit_def Let_def)

text \<open>When the termination call cannot be queued, \<open>Server::close\<close> does not join, and
  the deletion of the server then destroys a joinable thread.\<close>

lemma stop_without_join_terminates:
  "alive s \<Longrightarrow> joinable s \<Longrightarrow>
     jni_stopWatching s False cancelled closed pending later = Some (Inl StdTerminate)"
  by (simp add: jni_stopWatching_def Server_close_def emit_def)

text \<open>A server whose only watch point cannot be cancelled and for which no completion
  arrives: \<open>Server::close\<close> queues the termination call and then never returns.\<close>

theorem close_never_returns_counterexample:
  "Server_close watching True fails fails [] [] = None"
  by (simp add: Server_close_def run_rest_def watching_def root_watch_def fails_def
      requestTermination_def WatchPoint_close_def emit_def Let_def)

text \<open>
  Claim C8, amended. \<open>Server::close\<close> takes no timeout and returns no value. When the
  termination call cannot be queued it logs, deletes the global reference and returns at
  once without waiting. Otherwise it joins the run-loop thread without a time limit: it
  returns only after the loop has returned, so with \<open>terminate\<close> set and no watch point
  registered, and it never returns exactly when the loop never returns.
\<close>

theorem close_joins_unbounded:
  "Server_close s False cancelled closed pending later =
     Some (Inr (s\<lparr>trace := trace s @ [Log Fine, QueueTermination, Log Severe, DeleteGlobalRef]\<rparr>)) \<and>
   (\<forall>s'. Server_close s True cancelled closed pending later = Some (Inr s') \<longrightarrow>
      terminate s' \<and> watchPoints s' = [] \<and>
      (\<exists>t. run_loop (emit QueueTermination (emit (Log Fine) s))
              ((pending @ [Termination cancelled closed]) # later) = Some (Inr t) \<and>
           trace s' = trace t @ [Log Info, DetachJni, JoinThread, DeleteGlobalRef])) \<and>
   (Server_close s True cancelled closed pending later = None \<longleftrightarrow>
      run_loop (emit QueueTermination (emit (Log Fine) s))
        ((pending @ [Termination cancelled closed]) # later) = None)"
proof -
  let ?r = "run_loop (emit QueueTermination (emit (Log Fine) s))
              ((pending @ [Termination cancelled closed]) # later)"
  have a: "Server_close s False cancelled closed pending later =
     Some (Inr (s\<lparr>trace := trace s @ [Log Fine, QueueTermination, Log Severe, DeleteGlobalRef]\<rparr>))"
    by (simp add: Server_close_def emit_def)
  have b: "terminate s' \<and> watchPoints s' = [] \<and>
      (\<exists>t. ?r = Some (Inr t) \<and> trace s' = trace t @ [Log Info, DetachJni, JoinThread, DeleteGlobalRef])"
    if "Server_close s True cancelled closed pending later = Some (Inr s')" for s'
  proof (cases ?r)
    case None
    with that show ?thesis by (simp add: Server_close_def run_rest_def Let_def)
  next
    case (Some r)
    show ?thesis
    proof (cases r)
      case (Inl f)
      with Some that show ?thesis by (simp add: Server_close_def run_rest_def Let_def)
    next
      case (Inr t)
      with Some have "terminate t \<and> watchPoints t = []"
        using run_loop_exit by blast
      with Some Inr that show ?thesis
        by (auto simp: Server_close_def run_rest_def Let_def emit_frame)
    qed
  qed
  have c: "Server_close s True cancelled closed pending later = None \<longleftrightarrow> ?r = None"
    by (simp add: Server_close_def run_rest_def Let_def split: option.splits sum.splits)
  show ?thesis using a b c by blast
qed

theorem close_joins_unbounded_witness:
  "\<exists>s'. Server_close watching True (\<lambda>h. True) (\<lambda>h. True) []
           [[Completion 0 ERROR_OPERATION_ABORTED 0 [] False]] = Some (Inr s') \<and>
        terminate s' \<and> watchPoints s' = []"
proof -
  have "\<exists>s'. Server_close watching True (\<lambda>h. True) (\<lambda>h. True) []
           [[Completion 0 ERROR_OPERATION_ABORTED 0 [] False]] = Some (Inr s')"
    by (simp add: Server_close_def run_rest_def watching_def root_watch_def
      requestTermination_def WatchPoint_close_def handleEvent_def set_status_def
      reportFinished_def delete_WatchPoint_def emit_def Let_def)
  then show ?thesis
    using close_joins_unbounded [of watching "\<lambda>h. True" "\<lambda>h. True" "[]"
        "[[Completion 0 ERROR_OPERATION_ABORTED 0 [] False]]"]
    by blast
qed

subsection \<open>Delivered paths\<close>

lemma is_absolute_append: "is_absolute r \<Longrightarrow> is_absolute (r @ xs)"
  by (cases r; cases "tl r"; cases "tl (tl r)") (auto simp: is_absolute_def)

text \<open>A record with a non-empty name is delivered as the watched root, a backslash and
  the name, which is absolute when the root is; and the loop handles the records of the
  chain once each, in order.\<close>

lemma handlePathChanged_path:
  assumes "file_name info \<noteq> []"
  shows "\<exists>type. sink_calls (trace (handlePathChanged s this info)) =
           sink_calls (trace s) @ [(type, path this @ [backslash] @ file_name info)]"
  using assms
  by (auto simp: handlePathChanged_def file_name_def reportEvent_def emit_def Let_def
      sink_calls_append)

lemma walk_chain:
  "walk s this buffer = Inr s' \<Longrightarrow>
     s' = foldl (\<lambda>s info. handlePathChanged s this info) s (chain buffer)"
  by (induction buffer arbitrary: s) (auto simp: Let_def split: if_splits)

text \<open>
  Claim C9. The claim asks that every path passed to the callback is absolute, the watched
  root joined with the record's file name. For a record with an empty file name on a
  watch point whose root is absolute, the code passes the empty path, which is not
  absolute: the root is prefixed only inside the test for a non-empty name.
\<close>

theorem empty_name_delivers_empty_path:
  "dispatch (Completion 0 0 12
      [\<lparr>NextEntryOffset = 0, Action = FILE_ACTION_MODIFIED, FileNameLength = 0,
        FileName = []\<rparr>] True) watching =
     Inr \<lparr>watchPoints = [0], terminate = False, joinable = True, alive = True,
          heap = [0 \<mapsto> root_watch], next_addr = 1, destroyed = [],
          trace = [Log Fine, PathChanged FILE_EVENT_MODIFIED [], ReadDirectoryChangesW 7]\<rparr> \<and>
   is_absolute (path root_watch) \<and> \<not> is_absolute []"
  by (simp add: watching_def root_watch_def root_dir_def handleEvent_def handlePathChanged_def
      ERROR_OPERATION_ABORTED_def FILE_ACTION_ADDED_def FILE_ACTION_REMOVED_def
      FILE_ACTION_MODIFIED_def FILE_ACTION_RENAMED_OLD_NAME_def FILE_ACTION_RENAMED_NEW_NAME_def
      set_status_def reportEvent_def listen_def emit_def Let_def is_absolute_def is_letter_def
      backslash_def colon_def)

subsection \<open>Starting without paths\<close>

text \<open>With an empty array of paths and a failing \<open>GetJavaVM\<close> the message is the one of
  the first check.\<close>

theorem no_jvm_counterexample:
  "jni_startWatching initial False True [] =
     Some (NULL, \<lparr>watchPoints = [], terminate = False, joinable = False, alive = False,
                  heap = Map.empty, next_addr = 0, destroyed = [],
                  trace = [MarkFailed ''Could not store JVM instance.'']\<rparr>)"
  by (simp add: jni_startWatching_def initial_def emit_def)

text \<open>
  Claim C10, amended. For every call of the JNI function \<open>startWatching\<close> with an empty
  array of paths, the call marks the result as failed and returns \<open>NULL\<close> without
  constructing a server or starting a thread; the message is ``No paths given to watch.''
  when \<open>GetJavaVM\<close> succeeds and ``Could not store JVM instance.'' when it fails.
\<close>

theorem no_paths_fails:
  "\<exists>s'. jni_startWatching s jvm_ok attached [] = Some (NULL, s') \<and>
        trace s' = trace s @
          [MarkFailed (if jvm_ok then ''No paths given to watch.''
                       else ''Could not store JVM instance.'')] \<and>
        alive s' = alive s \<and> watchPoints s' = watchPoints s \<and> heap s' = heap s \<and>
        terminate s' = terminate s"
  by (simp add: jni_startWatching_def emit_def)

theorem no_paths_fails_witness:
  "\<exists>s'. jni_startWatching initial True True [] = Some (NULL, s') \<and>
        trace s' = [MarkFailed ''No paths given to watch.''] \<and> \<not> alive s'"
  using no_paths_fails [of initial True True]
  by (auto simp: initial_def)

end
